theory Spec2Isabelle
  imports Main "HOL-Library.Word" "HOL-Library.Sublist"
begin

section \<open>Places\<close>

text \<open>
  Modelled from the spec: the header \<^verbatim>\<open>place.h\<close> is not among the sources. The spec
  describes Place as a discriminated union \<^verbatim>\<open>{Host, HostPinned, Accelerator(deviceIndex)}\<close>
  with equality and a total order by (kind, deviceIndex). The source names the three
  alternatives \<^verbatim>\<open>CPUPlace\<close>, \<^verbatim>\<open>CUDAPinnedPlace\<close> and \<^verbatim>\<open>CUDAPlace\<close> (with the field
  \<^verbatim>\<open>device\<close>, a C++ \<^verbatim>\<open>int\<close>; no arithmetic is done on it, so it is an \<open>int\<close> here)
  and tests and extracts them with \<^verbatim>\<open>is_cpu_place\<close>, \<^verbatim>\<open>is_gpu_place\<close>,
  \<^verbatim>\<open>is_cuda_pinned_place\<close> and \<^verbatim>\<open>boost::get\<close>: a case distinction on the union.
\<close>

datatype CPUPlace = CPUPlace

datatype CUDAPlace = CUDAPlace (device: int)

datatype CUDAPinnedPlace = CUDAPinnedPlace

datatype Place = PlaceCPU CPUPlace | PlaceCUDAPinned CUDAPinnedPlace | PlaceCUDA CUDAPlace

text \<open>
  Modelled from the spec: the order on Place (\<^verbatim>\<open>operator<\<close>, used by \<^verbatim>\<open>std::set<Place>\<close>)
  compares the kind first, in the order the spec lists the kinds, and the device index
  second.
\<close>

fun kind :: "Place \<Rightarrow> nat" where
  "kind (PlaceCPU _) = 0"
| "kind (PlaceCUDAPinned _) = 1"
| "kind (PlaceCUDA _) = 2"

fun deviceIndex :: "Place \<Rightarrow> int" where
  "deviceIndex (PlaceCUDA g) = device g"
| "deviceIndex _ = 0"

definition place_less :: "Place \<Rightarrow> Place \<Rightarrow> bool" where
  "place_less a b = (kind a < kind b \<or> (kind a = kind b \<and> deviceIndex a < deviceIndex b))"

text \<open>
  \<^verbatim>\<open>std::set<Place>\<close> as the sorted list of its elements: \<^verbatim>\<open>insert\<close> keeps the list
  sorted by \<open>place_less\<close> and drops an element equivalent to one already present (neither
  less than the other), as the container does. Iterating the set walks the list.
\<close>

fun set_insert :: "Place \<Rightarrow> Place list \<Rightarrow> Place list" where
  "set_insert p [] = [p]"
| "set_insert p (q # qs) =
     (if place_less p q then p # q # qs
      else if place_less q p then q # set_insert p qs
      else q # qs)"

section \<open>Errors, external calls and the driver\<close>

type_synonym size_t = "64 word"

text \<open>A nullable pointer (\<^verbatim>\<open>void*\<close>, \<^verbatim>\<open>std::shared_ptr<void>\<close>): \<open>None\<close> is \<^verbatim>\<open>nullptr\<close>.\<close>

type_synonym void_ptr = "nat option"

abbreviation (input) nullptr :: "void_ptr" where
  "nullptr \<equiv> None"

text \<open>
  The calls the contexts make into code that is not theirs (the CUDA driver, cuBLAS,
  cuDNN, Eigen, the allocator, the caller's \<^verbatim>\<open>cudnn_func\<close>), in the order made: the
  observable behaviour of a constructor, a destructor or \<^verbatim>\<open>RunFunc\<close>. All calls of one
  context concern its own stream and handles, so only the arguments that vary are kept.
\<close>

datatype call =
    SetDeviceId int
  | cudaStreamCreate
  | new_EigenCudaStreamDevice
  | new_GpuDevice
  | cublasCreate
  | cublasSetStream
  | cudnnCreate
  | cudnnSetStream
  | new_StreamCallbackManager
  | cudaStreamSynchronize
  | cudaGetLastError
  | WaitStreamCallback
  | cublasDestroy
  | eigen_stream_reset
  | eigen_device_reset
  | cudaStreamDestroy
  | cudnnDestroy
  | Alloc CUDAPlace size_t
  | Free CUDAPlace void_ptr
  | cudnn_func void_ptr

text \<open>
  \<^verbatim>\<open>PADDLE_THROW(msg)\<close> and a failed \<^verbatim>\<open>PADDLE_ENFORCE_GT\<close> raise \<open>EnforceNotMet\<close> (with the
  literal message, or the text of the violated condition: the macros' own formatting is
  not among the sources); \<^verbatim>\<open>PADDLE_ENFORCE(call)\<close> raises \<open>CallFailed call\<close> when the call
  reports a failure status; the allocator's failure is \<open>OutOfMemory\<close>.
\<close>

datatype error = EnforceNotMet string | CallFailed call | OutOfMemory

text \<open>
  The environment of one operation on one device: whether each call succeeds, what the
  allocator returns, whether cuDNN is present, and what each metadata query returns (its
  value, or a failure). Every operation below makes each call at most once, so one answer
  per call is general.
\<close>

record driver =
  status :: "call \<Rightarrow> bool"
  Alloc_result :: "CUDAPlace \<Rightarrow> size_t \<Rightarrow> error + void_ptr"
  HasCUDNN :: bool
  GetCUDAComputeCapability :: "int \<Rightarrow> error + int"
  GetCUDAMultiProcessors :: "int \<Rightarrow> error + int"
  GetCUDAMaxThreadsPerMultiProcessor :: "int \<Rightarrow> error + int"
  GetCUDADriverVersion :: "int \<Rightarrow> error + int"
  GetCUDARuntimeVersion :: "int \<Rightarrow> error + int"

text \<open>
  A computation that makes external calls and may raise: the calls made (also those made
  before a raise), and the error or the result. A raise ends the computation and returns
  no state: a failed check is fatal, the process does not go on with the object.
\<close>

type_synonym 'a run = "call list \<times> (error + 'a)"

definition ret :: "'a \<Rightarrow> 'a run" where
  "ret x = ([], Inr x)"

definition bind :: "'a run \<Rightarrow> ('a \<Rightarrow> 'b run) \<Rightarrow> 'b run" where
  "bind m f =
     (case m of
        (tr, Inl e) \<Rightarrow> (tr, Inl e)
      | (tr, Inr x) \<Rightarrow> (case f x of (tr', r) \<Rightarrow> (tr @ tr', r)))"

definition extern :: "call \<Rightarrow> unit run" where
  "extern c = ([c], Inr ())"

definition PADDLE_ENFORCE :: "driver \<Rightarrow> call \<Rightarrow> unit run" where
  "PADDLE_ENFORCE drv c = ([c], if status drv c then Inr () else Inl (CallFailed c))"

text \<open>
  A step of a constructor that the source calls without a check of its own and that is
  fatal when it fails (the selection of the device, the construction of the Eigen adapter
  and of the callback manager), and a metadata query, which returns its value or fails.
\<close>

definition fatal_step :: "driver \<Rightarrow> call \<Rightarrow> unit run" where
  "fatal_step drv c = ([c], if status drv c then Inr () else Inl (CallFailed c))"

definition query :: "error + int \<Rightarrow> int run" where
  "query r = ([], r)"

definition memory_Alloc :: "driver \<Rightarrow> CUDAPlace \<Rightarrow> size_t \<Rightarrow> void_ptr run" where
  "memory_Alloc drv place num_bytes = ([Alloc place num_bytes], Alloc_result drv place num_bytes)"

definition memory_Free :: "CUDAPlace \<Rightarrow> void_ptr \<Rightarrow> unit run" where
  "memory_Free place buffer = extern (Free place buffer)"

section \<open>CudnnHolder\<close>

text \<open>
  The holder's mutex makes \<^verbatim>\<open>RunFunc\<close> atomic; the model runs one call at a time. The
  cuDNN handle and the stream pointer are opaque and appear only in the calls. A member
  \<^verbatim>\<open>name_\<close> of the source is the field \<open>name\<close> here (a name cannot end in an
  underscore), prefixed where two classes share it.
\<close>

record CudnnHolder =
  workspace :: void_ptr
  workspace_len :: size_t
  holder_place :: CUDAPlace

definition CudnnHolder_ctor :: "driver \<Rightarrow> CUDAPlace \<Rightarrow> CudnnHolder run" where
  "CudnnHolder_ctor drv place =
     bind (PADDLE_ENFORCE drv cudnnCreate) (\<lambda>_.
     bind (PADDLE_ENFORCE drv cudnnSetStream) (\<lambda>_.
     ret \<lparr>workspace = nullptr, workspace_len = 0, holder_place = place\<rparr>))"

definition ReallocateWorkspace :: "driver \<Rightarrow> size_t \<Rightarrow> CudnnHolder \<Rightarrow> CudnnHolder run" where
  "ReallocateWorkspace drv required_workspace_len h =
     (if required_workspace_len \<le> workspace_len h then ret h
      else
        bind (if workspace h \<noteq> nullptr
              then bind (PADDLE_ENFORCE drv cudaStreamSynchronize) (\<lambda>_.
                   memory_Free (holder_place h) (workspace h))
              else ret ()) (\<lambda>_.
        bind (memory_Alloc drv (holder_place h) required_workspace_len) (\<lambda>p.
        ret (h\<lparr>workspace := p, workspace_len := required_workspace_len\<rparr>))))"

definition RunFunc :: "driver \<Rightarrow> size_t \<Rightarrow> CudnnHolder \<Rightarrow> CudnnHolder run" where
  "RunFunc drv required_workspace_len h =
     bind (if required_workspace_len > workspace_len h
           then ReallocateWorkspace drv required_workspace_len h
           else ret h) (\<lambda>h'.
     bind (extern (cudnn_func (workspace h'))) (\<lambda>_.
     ret h'))"

definition CudnnHolder_dtor :: "driver \<Rightarrow> CudnnHolder \<Rightarrow> unit run" where
  "CudnnHolder_dtor drv h =
     bind (PADDLE_ENFORCE drv cudnnDestroy) (\<lambda>_.
     if workspace h \<noteq> nullptr then memory_Free (holder_place h) (workspace h) else ret ())"

text \<open>
  The holder as a call leaves it. A call that returns leaves the holder it returns. A call
  that raises leaves the fields as they were: the two assignments of
  \<^verbatim>\<open>ReallocateWorkspace\<close> come after its last call that can raise, and the holder
  outlives the exception.
\<close>

definition holder_after :: "driver \<Rightarrow> size_t \<Rightarrow> CudnnHolder \<Rightarrow> CudnnHolder" where
  "holder_after drv required_workspace_len h =
     (case snd (RunFunc drv required_workspace_len h) of
        Inl e \<Rightarrow> h
      | Inr h' \<Rightarrow> h')"

text \<open>
  A client's successive \<^verbatim>\<open>RunFunc\<close> calls on one holder, each with the size it requires
  and the environment it meets. The client catches what a call raises and goes on with
  the holder: the result is the calls made in all, and the holder at the end.
\<close>

fun RunFuncs :: "(driver \<times> size_t) list \<Rightarrow> CudnnHolder \<Rightarrow> call list \<times> CudnnHolder" where
  "RunFuncs [] h = ([], h)"
| "RunFuncs ((drv, n) # cs) h =
     (case RunFuncs cs (holder_after drv n h) of
        (tr, h') \<Rightarrow> (fst (RunFunc drv n h) @ tr, h'))"

section \<open>CUDADeviceContext\<close>

text \<open>
  The stream, the cuBLAS handle, the Eigen adapter and the callback manager are opaque
  and appear only in the calls that create and release them; the adapter's own fields
  and the constructor's log line are left out. Every step of the construction is fatal
  when it fails, also the steps the source does not wrap in \<^verbatim>\<open>PADDLE_ENFORCE\<close>.
\<close>

record CUDADeviceContext =
  cuda_place :: CUDAPlace
  cudnn_holder :: "CudnnHolder option"
  compute_capability :: int
  multi_process :: int
  max_threads_per_mp :: int
  driver_version :: int
  runtime_version :: int

definition CUDADeviceContext_ctor :: "driver \<Rightarrow> CUDAPlace \<Rightarrow> CUDADeviceContext run" where
  "CUDADeviceContext_ctor drv place =
     bind (fatal_step drv (SetDeviceId (device place))) (\<lambda>_.
     bind (query (GetCUDAComputeCapability drv (device place))) (\<lambda>capability.
     bind (query (GetCUDAMultiProcessors drv (device place))) (\<lambda>processors.
     bind (query (GetCUDAMaxThreadsPerMultiProcessor drv (device place))) (\<lambda>threads.
     bind (PADDLE_ENFORCE drv cudaStreamCreate) (\<lambda>_.
     bind (fatal_step drv new_EigenCudaStreamDevice) (\<lambda>_.
     bind (fatal_step drv new_GpuDevice) (\<lambda>_.
     bind (PADDLE_ENFORCE drv cublasCreate) (\<lambda>_.
     bind (PADDLE_ENFORCE drv cublasSetStream) (\<lambda>_.
     bind (if HasCUDNN drv
           then bind (CudnnHolder_ctor drv place) (\<lambda>h. ret (Some h))
           else ret None) (\<lambda>holder.
     bind (query (GetCUDADriverVersion drv (device place))) (\<lambda>driver.
     bind (query (GetCUDARuntimeVersion drv (device place))) (\<lambda>runtime.
     bind (fatal_step drv new_StreamCallbackManager) (\<lambda>_.
     ret \<lparr>cuda_place = place,
          cudnn_holder = holder,
          compute_capability = capability,
          multi_process = processors,
          max_threads_per_mp = threads,
          driver_version = driver,
          runtime_version = runtime\<rparr>)))))))))))))"

definition Wait :: "driver \<Rightarrow> unit run" where
  "Wait drv =
     bind (PADDLE_ENFORCE drv cudaStreamSynchronize) (\<lambda>_.
     PADDLE_ENFORCE drv cudaGetLastError)"

text \<open>
  The destructor: its body, then the destruction of the members the body has not
  released. \<^verbatim>\<open>cudnn_holder_\<close> is a smart pointer the body never resets, so the holder's
  destructor runs after the body, when the holder exists. (The destructor of the callback
  manager, a member too, is not among the sources.) A raise in a destructor ends the
  process: the calls made until then are the whole teardown.
\<close>

definition CUDADeviceContext_dtor :: "driver \<Rightarrow> CUDADeviceContext \<Rightarrow> unit run" where
  "CUDADeviceContext_dtor drv ctx =
     bind (extern (SetDeviceId (device (cuda_place ctx)))) (\<lambda>_.
     bind (Wait drv) (\<lambda>_.
     bind (extern WaitStreamCallback) (\<lambda>_.
     bind (PADDLE_ENFORCE drv cublasDestroy) (\<lambda>_.
     bind (extern eigen_stream_reset) (\<lambda>_.
     bind (extern eigen_device_reset) (\<lambda>_.
     bind (PADDLE_ENFORCE drv cudaStreamDestroy) (\<lambda>_.
     (case cudnn_holder ctx of
        None \<Rightarrow> ret ()
      | Some h \<Rightarrow> CudnnHolder_dtor drv h))))))))"

text \<open>Reading a trace: the calls that release a handle or a buffer of the context.\<close>

fun is_release :: "call \<Rightarrow> bool" where
  "is_release cublasDestroy = True"
| "is_release eigen_stream_reset = True"
| "is_release eigen_device_reset = True"
| "is_release cudaStreamDestroy = True"
| "is_release cudnnDestroy = True"
| "is_release (Free _ _) = True"
| "is_release _ = False"

fun is_Free :: "call \<Rightarrow> bool" where
  "is_Free (Free _ _) = True"
| "is_Free _ = False"

text \<open>
  \<open>preceded P Q tr\<close>: in the trace \<open>tr\<close>, no call satisfying \<open>Q\<close> is made before a call
  satisfying \<open>P\<close> has been made.
\<close>

fun preceded :: "('a \<Rightarrow> bool) \<Rightarrow> ('a \<Rightarrow> bool) \<Rightarrow> 'a list \<Rightarrow> bool" where
  "preceded P Q [] = True"
| "preceded P Q (x # xs) = (if P x then True else if Q x then False else preceded P Q xs)"

section \<open>CPU, pinned and MKL-DNN contexts\<close>

record CPUDeviceContext =
  cpu_place :: CPUPlace

definition CPUDeviceContext_ctor :: "CPUPlace \<Rightarrow> CPUDeviceContext" where
  "CPUDeviceContext_ctor place = \<lparr>cpu_place = place\<rparr>"

record CUDAPinnedDeviceContext =
  pinned_place :: CUDAPinnedPlace

definition CUDAPinnedDeviceContext_ctor :: "CUDAPinnedPlace \<Rightarrow> CUDAPinnedDeviceContext" where
  "CUDAPinnedDeviceContext_ctor place = \<lparr>pinned_place = place\<rparr>"

text \<open>
  \<^verbatim>\<open>KeyBlob\<close> maps a name to a blob, \<^verbatim>\<open>BlobMap\<close> a thread id to the \<^verbatim>\<open>KeyBlob\<close> of that
  thread. A row is held by a shared pointer, but \<^verbatim>\<open>SetBlob\<close> is the only code that
  stores one, and it stores a row made by \<^verbatim>\<open>new KeyBlob()\<close> under one thread id: no two
  thread ids share a row, so the map of maps is the whole state. The context's mutex
  makes \<^verbatim>\<open>SetBlob\<close> and \<^verbatim>\<open>GetBlob\<close> atomic; the model runs one at a time.
\<close>

type_synonym KeyBlob = "string \<rightharpoonup> void_ptr"

type_synonym BlobMap = "int \<rightharpoonup> KeyBlob"

record MKLDNNDeviceContext = CPUDeviceContext +
  p_blobmap :: BlobMap

definition MKLDNNDeviceContext_ctor :: "CPUPlace \<Rightarrow> MKLDNNDeviceContext" where
  "MKLDNNDeviceContext_ctor place = \<lparr>cpu_place = place, p_blobmap = Map.empty\<rparr>"

text \<open>The thread-local variables of one thread: \<^verbatim>\<open>thread_local int cur_thread_id = 0\<close>.\<close>

record thread_local =
  cur_thread_id :: int

definition thread_local_init :: "thread_local" where
  "thread_local_init = \<lparr>cur_thread_id = 0\<rparr>"

definition set_cur_thread_id :: "int \<Rightarrow> thread_local \<Rightarrow> thread_local" where
  "set_cur_thread_id tid tls = tls\<lparr>cur_thread_id := tid\<rparr>"

definition get_cur_thread_id :: "thread_local \<Rightarrow> int" where
  "get_cur_thread_id tls = cur_thread_id tls"

text \<open>
  \<^verbatim>\<open>SetBlob\<close>, called on a thread whose thread-local variables are \<open>tls\<close>. Writing through
  \<^verbatim>\<open>pBlob\<close> changes the row the map holds under \<open>tid\<close>, so the new map holds the changed
  row there.
\<close>

definition SetBlob :: "thread_local \<Rightarrow> string \<Rightarrow> void_ptr \<Rightarrow> MKLDNNDeviceContext \<Rightarrow> MKLDNNDeviceContext" where
  "SetBlob tls name data ctx =
     (let pMap = p_blobmap ctx;
          tid = get_cur_thread_id tls;
          pBlob = (case pMap tid of
                     None \<Rightarrow> Map.empty
                   | Some row \<Rightarrow> row);
          pBlob' = (case pBlob name of
                      None \<Rightarrow> pBlob(name \<mapsto> data)
                    | Some _ \<Rightarrow> pBlob(name \<mapsto> data))
      in ctx\<lparr>p_blobmap := pMap(tid \<mapsto> pBlob')\<rparr>)"

text \<open>
  \<^verbatim>\<open>GetBlob\<close> returns the blob found, or \<^verbatim>\<open>nullptr\<close>, and leaves the context as its
  \<^verbatim>\<open>find\<close> calls leave it (the second component).
\<close>

definition GetBlob :: "thread_local \<Rightarrow> string \<Rightarrow> MKLDNNDeviceContext \<Rightarrow> void_ptr \<times> MKLDNNDeviceContext" where
  "GetBlob tls name ctx =
     (let pMap = p_blobmap ctx;
          tid = get_cur_thread_id tls
      in case pMap tid of
           None \<Rightarrow> (nullptr, ctx)
         | Some pBlob \<Rightarrow>
             (case pBlob name of
                None \<Rightarrow> (nullptr, ctx)
              | Some data \<Rightarrow> (data, ctx)))"

text \<open>The entry of the cache for a thread id and a name, if there is one.\<close>

definition blob_entry :: "MKLDNNDeviceContext \<Rightarrow> int \<Rightarrow> string \<Rightarrow> void_ptr option" where
  "blob_entry ctx tid name = (case p_blobmap ctx tid of None \<Rightarrow> None | Some row \<Rightarrow> row name)"

section \<open>DeviceContextPool\<close>

datatype DeviceContext =
    CPUCtx CPUDeviceContext
  | MKLDNNCtx MKLDNNDeviceContext
  | CUDACtx CUDADeviceContext
  | CUDAPinnedCtx CUDAPinnedDeviceContext

fun GetPlace :: "DeviceContext \<Rightarrow> Place" where
  "GetPlace (CPUCtx c) = PlaceCPU (cpu_place c)"
| "GetPlace (MKLDNNCtx c) = PlaceCPU (cpu_place c)"
| "GetPlace (CUDACtx c) = PlaceCUDA (cuda_place c)"
| "GetPlace (CUDAPinnedCtx c) = PlaceCUDAPinned (pinned_place c)"

text \<open>The build options the source is compiled under.\<close>

record build =
  PADDLE_WITH_MKLDNN :: bool
  PADDLE_WITH_CUDA :: bool

text \<open>
  \<^verbatim>\<open>device_contexts_\<close>, a map from Place to the context it owns, as the list of its
  entries: \<^verbatim>\<open>find\<close> is \<open>map_of\<close>, and \<^verbatim>\<open>emplace\<close> adds an entry unless the key has one.
\<close>

record DeviceContextPool =
  device_contexts :: "(Place \<times> DeviceContext) list"

definition emplace :: "Place \<Rightarrow> DeviceContext \<Rightarrow> (Place \<times> DeviceContext) list \<Rightarrow> (Place \<times> DeviceContext) list" where
  "emplace p ctx m = (case map_of m p of None \<Rightarrow> m @ [(p, ctx)] | Some _ \<Rightarrow> m)"

definition CUDAPlace_not_supported :: string where
  "CUDAPlace_not_supported = '''CUDAPlace' is not supported, Please re-compile with WITH_GPU option''"

definition Place_not_supported :: string where
  "Place_not_supported = '''Place' is not supported, Please re-compile with WITH_GPU option''"

text \<open>
  The constructor's second loop, over the elements of the set; \<open>drv d\<close> is the environment
  the constructor of the context of device \<open>d\<close> meets.
\<close>

fun emplace_contexts :: "build \<Rightarrow> (int \<Rightarrow> driver) \<Rightarrow> Place list \<Rightarrow> (Place \<times> DeviceContext) list
    \<Rightarrow> error + (Place \<times> DeviceContext) list" where
  "emplace_contexts cfg drv [] m = Inr m"
| "emplace_contexts cfg drv (p # ps) m =
     (case p of
        PlaceCPU c \<Rightarrow>
          (if PADDLE_WITH_MKLDNN cfg
           then emplace_contexts cfg drv ps (emplace p (MKLDNNCtx (MKLDNNDeviceContext_ctor c)) m)
           else emplace_contexts cfg drv ps (emplace p (CPUCtx (CPUDeviceContext_ctor c)) m))
      | PlaceCUDA g \<Rightarrow>
          (if PADDLE_WITH_CUDA cfg
           then (case snd (CUDADeviceContext_ctor (drv (device g)) g) of
                   Inl e \<Rightarrow> Inl e
                 | Inr ctx \<Rightarrow> emplace_contexts cfg drv ps (emplace p (CUDACtx ctx) m))
           else Inl (EnforceNotMet CUDAPlace_not_supported))
      | PlaceCUDAPinned pp \<Rightarrow>
          (if PADDLE_WITH_CUDA cfg
           then emplace_contexts cfg drv ps (emplace p (CUDAPinnedCtx (CUDAPinnedDeviceContext_ctor pp)) m)
           else Inl (EnforceNotMet CUDAPlace_not_supported)))"

definition DeviceContextPool_ctor :: "build \<Rightarrow> (int \<Rightarrow> driver) \<Rightarrow> Place list \<Rightarrow> error + DeviceContextPool" where
  "DeviceContextPool_ctor cfg drv places =
     (if \<not> length places > 0 then Inl (EnforceNotMet ''places.size() > 0'')
      else
        (case emplace_contexts cfg drv (foldl (\<lambda>s p. set_insert p s) [] places) [] of
           Inl e \<Rightarrow> Inl e
         | Inr m \<Rightarrow> Inr \<lparr>device_contexts = m\<rparr>))"

text \<open>
  \<^verbatim>\<open>Get\<close> returns the context found, or raises, and leaves the pool as its \<^verbatim>\<open>find\<close> call
  leaves it (the second component).
\<close>

definition Get :: "DeviceContextPool \<Rightarrow> Place \<Rightarrow> (error + DeviceContext) \<times> DeviceContextPool" where
  "Get pool place =
     (case map_of (device_contexts pool) place of
        None \<Rightarrow> (Inl (EnforceNotMet Place_not_supported), pool)
      | Some ctx \<Rightarrow> (Inr ctx, pool))"

section \<open>Notions used in the statements\<close>

text \<open>A query or an allocation that returns a value.\<close>

definition succeeds :: "error + 'a \<Rightarrow> bool" where
  "succeeds r = (case r of Inl _ \<Rightarrow> False | Inr _ \<Rightarrow> True)"



text \<open>Every entry of the map holds, under its key, a context of that Place.\<close>

definition well_keyed :: "(Place \<times> DeviceContext) list \<Rightarrow> bool" where
  "well_keyed m = list_all (\<lambda>(k, c). GetPlace c = k) m"

text \<open>The teardown of a context in the order the specification gives it.\<close>

definition teardown_order :: "call list" where
  "teardown_order =
     [cudaStreamSynchronize, WaitStreamCallback, cublasDestroy, eigen_stream_reset,
      eigen_device_reset, cudaStreamDestroy]"

text \<open>The calls of a trace that are among those of a given sequence.\<close>

definition restrict_to :: "'a list \<Rightarrow> 'a list \<Rightarrow> 'a list" where
  "restrict_to cs tr = filter (\<lambda>c. c \<in> set cs) tr"

section \<open>Concrete environments and builds\<close>

text \<open>
  An environment in which every call succeeds, cuDNN is present and the allocator
  returns the address \<open>4096 + n\<close> for \<open>n\<close> bytes; the same environment with an
  allocator that is out of memory; and the three builds.
\<close>

definition all_succeed :: "driver" where
  "all_succeed =
     \<lparr>status = (\<lambda>_. True),
      Alloc_result = (\<lambda>_ n. Inr (Some (4096 + unat n))),
      HasCUDNN = True,
      GetCUDAComputeCapability = (\<lambda>_. Inr 70),
      GetCUDAMultiProcessors = (\<lambda>_. Inr 80),
      GetCUDAMaxThreadsPerMultiProcessor = (\<lambda>_. Inr 2048),
      GetCUDADriverVersion = (\<lambda>_. Inr 10000),
      GetCUDARuntimeVersion = (\<lambda>_. Inr 10000)\<rparr>"

definition out_of_memory :: "driver" where
  "out_of_memory = all_succeed\<lparr>Alloc_result := (\<lambda>_ _. Inl OutOfMemory)\<rparr>"

definition every_device :: "driver \<Rightarrow> int \<Rightarrow> driver" where
  "every_device d = (\<lambda>_. d)"

definition plain_build :: "build" where
  "plain_build = \<lparr>PADDLE_WITH_MKLDNN = False, PADDLE_WITH_CUDA = False\<rparr>"

definition mkldnn_build :: "build" where
  "mkldnn_build = \<lparr>PADDLE_WITH_MKLDNN = True, PADDLE_WITH_CUDA = False\<rparr>"


text \<open>
  A holder as its constructor leaves it, the holder after \<^verbatim>\<open>RunFunc\<close> has allocated 100
  bytes in the environment \<open>all_succeed\<close>, and contexts of device 0 without a holder and
  with that holder.
\<close>

definition fresh_holder :: "CudnnHolder" where
  "fresh_holder = \<lparr>workspace = nullptr, workspace_len = 0, holder_place = CUDAPlace 0\<rparr>"

definition holder_with_workspace :: "CudnnHolder" where
  "holder_with_workspace = \<lparr>workspace = Some 4196, workspace_len = 100, holder_place = CUDAPlace 0\<rparr>"

definition context_without_cudnn :: "CUDADeviceContext" where
  "context_without_cudnn =
     \<lparr>cuda_place = CUDAPlace 0, cudnn_holder = None, compute_capability = 70, multi_process = 80,
      max_threads_per_mp = 2048, driver_version = 10000, runtime_version = 10000\<rparr>"

definition context_with_workspace :: "CUDADeviceContext" where
  "context_with_workspace = context_without_cudnn\<lparr>cudnn_holder := Some holder_with_workspace\<rparr>"

section \<open>The thread-scoped blob cache\<close>

lemma GetBlob_entry:
  "fst (GetBlob tls name ctx) =
     (case blob_entry ctx (get_cur_thread_id tls) name of None \<Rightarrow> nullptr | Some d \<Rightarrow> d)"
  by (simp add: GetBlob_def blob_entry_def Let_def split: option.splits)

lemma GetBlob_unchanged: "snd (GetBlob tls name ctx) = ctx"
  by (simp add: GetBlob_def Let_def split: option.splits)

lemma SetBlob_entry:
  "blob_entry (SetBlob tls name data ctx) tid n =
     (if tid = get_cur_thread_id tls \<and> n = name then Some data else blob_entry ctx tid n)"
  by (simp add: SetBlob_def blob_entry_def Let_def split: option.splits)

lemma SetBlob_rows:
  "dom (p_blobmap (SetBlob tls name data ctx)) = insert (get_cur_thread_id tls) (dom (p_blobmap ctx))"
  by (simp add: SetBlob_def Let_def split: option.splits)

lemma get_set_cur_thread_id: "get_cur_thread_id (set_cur_thread_id tid tls) = tid"
  by (simp add: get_cur_thread_id_def set_cur_thread_id_def)

lemma blob_entry_fresh: "blob_entry (MKLDNNDeviceContext_ctor place) tid name = None"
  by (simp add: blob_entry_def MKLDNNDeviceContext_ctor_def)

text \<open>
  Claim C4. A thread sets its id to \<open>a\<close> and calls \<^verbatim>\<open>SetBlob(k, v)\<close>; another thread has set
  its id to \<open>b \<noteq> a\<close>. Then \<^verbatim>\<open>GetBlob(k)\<close> on the second thread returns what it returned before
  the \<^verbatim>\<open>SetBlob\<close>: \<^verbatim>\<open>nullptr\<close> ("not found") whenever the cache holds no entry for \<open>k\<close> under
  \<open>b\<close>, as in a cache that was empty before. On the first thread \<^verbatim>\<open>GetBlob(k)\<close> returns \<open>v\<close>,
  and after a further \<^verbatim>\<open>SetBlob(k, v2)\<close> on that thread it returns \<open>v2\<close>.
\<close>

theorem blob_cache_thread_scoped:
  assumes "a \<noteq> b"
  shows
    "fst (GetBlob (set_cur_thread_id b tlsB) k (SetBlob (set_cur_thread_id a tlsA) k v ctx))
       = fst (GetBlob (set_cur_thread_id b tlsB) k ctx) \<and>
     (blob_entry ctx b k = None \<longrightarrow>
        fst (GetBlob (set_cur_thread_id b tlsB) k (SetBlob (set_cur_thread_id a tlsA) k v ctx)) = nullptr) \<and>
     fst (GetBlob (set_cur_thread_id b tlsB) k
            (SetBlob (set_cur_thread_id a tlsA) k v (MKLDNNDeviceContext_ctor place))) = nullptr \<and>
     fst (GetBlob (set_cur_thread_id a tlsA) k (SetBlob (set_cur_thread_id a tlsA) k v ctx)) = v \<and>
     fst (GetBlob (set_cur_thread_id a tlsA) k
            (SetBlob (set_cur_thread_id a tlsA) k v2 (SetBlob (set_cur_thread_id a tlsA) k v ctx))) = v2"
  using assms
  by (simp add: GetBlob_entry SetBlob_entry get_set_cur_thread_id blob_entry_fresh)

theorem blob_cache_thread_scoped_witness:
  "(1 :: int) \<noteq> 2 \<and>
   fst (GetBlob (set_cur_thread_id 2 thread_local_init) ''k''
          (SetBlob (set_cur_thread_id 1 thread_local_init) ''k'' (Some 7)
             (MKLDNNDeviceContext_ctor CPUPlace))) = nullptr \<and>
   fst (GetBlob (set_cur_thread_id 1 thread_local_init) ''k''
          (SetBlob (set_cur_thread_id 1 thread_local_init) ''k'' (Some 7)
             (MKLDNNDeviceContext_ctor CPUPlace))) = Some 7 \<and>
   fst (GetBlob (set_cur_thread_id 1 thread_local_init) ''k''
          (SetBlob (set_cur_thread_id 1 thread_local_init) ''k'' (Some 8)
             (SetBlob (set_cur_thread_id 1 thread_local_init) ''k'' (Some 7)
                (MKLDNNDeviceContext_ctor CPUPlace)))) = Some 8"
proof -
  have ne: "(1 :: int) \<noteq> 2" by simp
  from blob_cache_thread_scoped [OF ne, where tlsA = thread_local_init and tlsB = thread_local_init
      and k = "''k''" and v = "Some 7" and ?v2.0 = "Some 8" and place = CPUPlace
      and ctx = "MKLDNNDeviceContext_ctor CPUPlace"]
  moreover have "fst (GetBlob (set_cur_thread_id 2 thread_local_init) ''k''
      (MKLDNNDeviceContext_ctor CPUPlace)) = nullptr"
    by (simp add: GetBlob_entry blob_entry_fresh)
  ultimately show ?thesis using ne by simp
qed

text \<open>
  Claim C9. \<^verbatim>\<open>GetBlob\<close> returns \<^verbatim>\<open>nullptr\<close> ("not found") when the map has no row for the
  calling thread's current id, and when that row has no entry for the name. It has no
  path that raises, and it leaves the context as it was.
\<close>

theorem GetBlob_miss_returns_nullptr:
  "(p_blobmap ctx (get_cur_thread_id tls) = None \<longrightarrow> GetBlob tls name ctx = (nullptr, ctx)) \<and>
   (\<forall>row. p_blobmap ctx (get_cur_thread_id tls) = Some row \<and> row name = None
      \<longrightarrow> GetBlob tls name ctx = (nullptr, ctx))"
  by (simp add: GetBlob_def)

theorem GetBlob_miss_returns_nullptr_witness:
  "p_blobmap (MKLDNNDeviceContext_ctor CPUPlace) (get_cur_thread_id thread_local_init) = None \<and>
   GetBlob thread_local_init ''k'' (MKLDNNDeviceContext_ctor CPUPlace)
     = (nullptr, MKLDNNDeviceContext_ctor CPUPlace) \<and>
   p_blobmap (SetBlob thread_local_init ''j'' (Some 7) (MKLDNNDeviceContext_ctor CPUPlace))
      (get_cur_thread_id thread_local_init) = Some [''j'' \<mapsto> Some 7] \<and>
   [''j'' \<mapsto> Some (7 :: nat)] ''k'' = None \<and>
   GetBlob thread_local_init ''k'' (SetBlob thread_local_init ''j'' (Some 7) (MKLDNNDeviceContext_ctor CPUPlace))
     = (nullptr, SetBlob thread_local_init ''j'' (Some 7) (MKLDNNDeviceContext_ctor CPUPlace))"
proof -
  have row: "p_blobmap (SetBlob thread_local_init ''j'' (Some 7) (MKLDNNDeviceContext_ctor CPUPlace))
      (get_cur_thread_id thread_local_init) = Some [''j'' \<mapsto> Some 7]"
    by (simp add: SetBlob_def MKLDNNDeviceContext_ctor_def Let_def)
  have none: "p_blobmap (MKLDNNDeviceContext_ctor CPUPlace) (get_cur_thread_id thread_local_init) = None"
    by (simp add: MKLDNNDeviceContext_ctor_def)
  have miss: "[''j'' \<mapsto> Some (7 :: nat)] ''k'' = None" by simp
  from GetBlob_miss_returns_nullptr [where ctx = "MKLDNNDeviceContext_ctor CPUPlace"
      and tls = thread_local_init and name = "''k''"]
    GetBlob_miss_returns_nullptr [where
      ctx = "SetBlob thread_local_init ''j'' (Some 7) (MKLDNNDeviceContext_ctor CPUPlace)"
      and tls = thread_local_init and name = "''k''"]
    row none miss
  show ?thesis by blast
qed

text \<open>
  Claim C10. \<^verbatim>\<open>GetBlob\<close>, hit or miss, leaves the context and so the two-level map
  unchanged: a miss creates no row. \<^verbatim>\<open>SetBlob\<close> of \<open>name\<close> under the calling thread's id
  adds at most the row of that id, stores the blob as the entry of that id and name, and
  leaves the entry of every other pair of a thread id and a name as it was.
\<close>

theorem blob_cache_frame:
  "snd (GetBlob tls name ctx) = ctx \<and>
   dom (p_blobmap (SetBlob tls name data ctx)) = insert (get_cur_thread_id tls) (dom (p_blobmap ctx)) \<and>
   blob_entry (SetBlob tls name data ctx) (get_cur_thread_id tls) name = Some data \<and>
   (\<forall>tid n. (tid, n) \<noteq> (get_cur_thread_id tls, name) \<longrightarrow>
      blob_entry (SetBlob tls name data ctx) tid n = blob_entry ctx tid n)"
  by (simp add: GetBlob_unchanged SetBlob_rows SetBlob_entry)

theorem blob_cache_frame_witness:
  "snd (GetBlob (set_cur_thread_id 5 thread_local_init) ''k'' (MKLDNNDeviceContext_ctor CPUPlace))
     = MKLDNNDeviceContext_ctor CPUPlace \<and>
   dom (p_blobmap (snd (GetBlob (set_cur_thread_id 5 thread_local_init) ''k''
          (MKLDNNDeviceContext_ctor CPUPlace)))) = {} \<and>
   (0 :: int, ''j'') \<noteq> (get_cur_thread_id (set_cur_thread_id 1 thread_local_init), ''k'') \<and>
   blob_entry (SetBlob (set_cur_thread_id 1 thread_local_init) ''k'' (Some 8)
        (SetBlob thread_local_init ''j'' (Some 7) (MKLDNNDeviceContext_ctor CPUPlace))) 0 ''j''
     = Some (Some 7)"
proof -
  have ne: "(0 :: int, ''j'') \<noteq> (get_cur_thread_id (set_cur_thread_id 1 thread_local_init), ''k'')"
    by (simp add: get_set_cur_thread_id)
  have old: "blob_entry (SetBlob thread_local_init ''j'' (Some 7) (MKLDNNDeviceContext_ctor CPUPlace)) 0 ''j''
      = Some (Some 7)"
    by (simp add: SetBlob_entry get_cur_thread_id_def thread_local_init_def)
  have empty: "dom (p_blobmap (MKLDNNDeviceContext_ctor CPUPlace)) = {}"
    by (simp add: MKLDNNDeviceContext_ctor_def)
  from blob_cache_frame [where tls = "set_cur_thread_id 5 thread_local_init" and name = "''k''"
      and ctx = "MKLDNNDeviceContext_ctor CPUPlace"]
    blob_cache_frame [where tls = "set_cur_thread_id 1 thread_local_init" and name = "''k''"
      and data = "Some 8"
      and ctx = "SetBlob thread_local_init ''j'' (Some 7) (MKLDNNDeviceContext_ctor CPUPlace)"]
    ne old empty
  show ?thesis by simp
qed

section \<open>The pool\<close>

subsection \<open>The set of places\<close>

lemma place_less_irrefl: "\<not> place_less p p"
  by (simp add: place_less_def)

lemma place_less_trans: "place_less a b \<Longrightarrow> place_less b c \<Longrightarrow> place_less a c"
  by (auto simp: place_less_def)

lemma CPUPlace_eq: "(x :: CPUPlace) = y"
  by (cases x; cases y) simp

lemma CUDAPinnedPlace_eq: "(x :: CUDAPinnedPlace) = y"
  by (cases x; cases y) simp

lemma place_less_total: "\<not> place_less p q \<Longrightarrow> \<not> place_less q p \<Longrightarrow> p = q"
  by (cases p; cases q)
     (auto simp: place_less_def CUDAPlace.expand intro: CPUPlace_eq CUDAPinnedPlace_eq)

lemma set_set_insert: "set (set_insert p s) = insert p (set s)"
  by (induction s) (auto dest: place_less_total)

lemma sorted_set_insert: "sorted_wrt place_less s \<Longrightarrow> sorted_wrt place_less (set_insert p s)"
  by (induction s) (auto simp: set_set_insert intro: place_less_trans dest: place_less_total)

lemma set_places: "set (foldl (\<lambda>s p. set_insert p s) acc places) = set acc \<union> set places"
  by (induction places arbitrary: acc) (auto simp: set_set_insert)

lemma sorted_places:
  "sorted_wrt place_less acc \<Longrightarrow> sorted_wrt place_less (foldl (\<lambda>s p. set_insert p s) acc places)"
  by (induction places arbitrary: acc) (auto simp: sorted_set_insert)

lemma sorted_distinct: "sorted_wrt place_less s \<Longrightarrow> distinct s"
  by (induction s) (auto simp: place_less_irrefl)

lemma distinct_places: "distinct (foldl (\<lambda>s p. set_insert p s) [] places)"
  by (rule sorted_distinct, rule sorted_places) simp

subsection \<open>The contexts built\<close>

lemma emplace_fresh: "map_of m p = None \<Longrightarrow> emplace p ctx m = m @ [(p, ctx)]"
  by (simp add: emplace_def)

lemma bind_Inr:
  "(snd (bind m f) = Inr y) = (\<exists>x. snd m = Inr x \<and> snd (f x) = Inr y)"
  by (cases m) (auto simp: bind_def split: sum.splits prod.splits)

lemma step_Inr:
  "(snd (fatal_step d c) = Inr u) = status d c" "(snd (PADDLE_ENFORCE d c) = Inr u) = status d c"
  "(snd (query r) = Inr v) = (r = Inr v)" "(snd (ret x) = Inr y) = (x = y)"
  by (simp_all add: fatal_step_def PADDLE_ENFORCE_def query_def ret_def)



lemma CUDADeviceContext_ctor_place:
  "snd (CUDADeviceContext_ctor d g) = Inr ctx \<Longrightarrow> cuda_place ctx = g"
  by (auto simp: CUDADeviceContext_ctor_def bind_Inr step_Inr)


lemma emplace_contexts_Cons:
  assumes "emplace_contexts cfg drv (p # ps) m = Inr m'" and "map_of m p = None"
  shows "\<exists>ctx. emplace_contexts cfg drv ps (m @ [(p, ctx)]) = Inr m' \<and> GetPlace ctx = p"
proof (cases p)
  case (PlaceCPU c)
  with assms show ?thesis
    by (cases "PADDLE_WITH_MKLDNN cfg")
       (auto simp: emplace_fresh MKLDNNDeviceContext_ctor_def CPUDeviceContext_ctor_def)
next
  case (PlaceCUDAPinned pp)
  with assms show ?thesis
    by (cases "PADDLE_WITH_CUDA cfg") (auto simp: emplace_fresh CUDAPinnedDeviceContext_ctor_def)
next
  case (PlaceCUDA g)
  with assms show ?thesis
    by (cases "PADDLE_WITH_CUDA cfg")
       (auto simp: emplace_fresh CUDADeviceContext_ctor_place split: sum.splits)
qed

lemma emplace_contexts_keys:
  "emplace_contexts cfg drv ps m = Inr m' \<Longrightarrow> distinct ps \<Longrightarrow> set ps \<inter> fst ` set m = {} \<Longrightarrow>
     map fst m' = map fst m @ ps \<and> (well_keyed m \<longrightarrow> well_keyed m')"
proof (induction ps arbitrary: m)
  case Nil
  then show ?case by simp
next
  case (Cons p ps)
  from Cons.prems have fresh: "map_of m p = None"
    by (auto simp: map_of_eq_None_iff)
  from emplace_contexts_Cons [OF Cons.prems(1) fresh]
  obtain ctx where run: "emplace_contexts cfg drv ps (m @ [(p, ctx)]) = Inr m'"
    and gp: "GetPlace ctx = p"
    by blast
  from Cons.prems have "distinct ps" "set ps \<inter> fst ` set (m @ [(p, ctx)]) = {}" by auto
  from Cons.IH [OF run this] show ?case
    using gp by (auto simp: well_keyed_def)
qed



lemma ctor_pool:
  assumes "DeviceContextPool_ctor cfg drv places = Inr pool"
  shows "places \<noteq> []"
    and "map fst (device_contexts pool) = foldl (\<lambda>s p. set_insert p s) [] places"
    and "well_keyed (device_contexts pool)"
proof -
  from assms show "places \<noteq> []"
    by (auto simp: DeviceContextPool_ctor_def)
  from assms obtain m
    where m: "emplace_contexts cfg drv (foldl (\<lambda>s p. set_insert p s) [] places) [] = Inr m"
      and pool: "pool = \<lparr>device_contexts = m\<rparr>"
    by (auto simp: DeviceContextPool_ctor_def split: if_splits sum.splits)
  from emplace_contexts_keys [OF m distinct_places] pool
  show "map fst (device_contexts pool) = foldl (\<lambda>s p. set_insert p s) [] places"
    and "well_keyed (device_contexts pool)"
    by (auto simp: well_keyed_def)
qed

lemma ctor_pool_keys:
  assumes "DeviceContextPool_ctor cfg drv places = Inr pool"
  shows "distinct (map fst (device_contexts pool))"
    and "fst ` set (device_contexts pool) = set places"
    and "length (device_contexts pool) = card (set places)"
proof -
  note k = ctor_pool(2) [OF assms]
  show d: "distinct (map fst (device_contexts pool))"
    by (simp add: k distinct_places)
  have "set (map fst (device_contexts pool)) = set places"
    by (simp add: k set_places)
  then show s: "fst ` set (device_contexts pool) = set places" by simp
  have "length (device_contexts pool) = length (map fst (device_contexts pool))" by simp
  also have "\<dots> = card (set (map fst (device_contexts pool)))"
    using d by (simp only: distinct_card)
  also have "\<dots> = card (set places)" using s by simp
  finally show "length (device_contexts pool) = card (set places)" .
qed


lemma ctor_pool_Get_absent:
  assumes "DeviceContextPool_ctor cfg drv places = Inr pool" and "p \<notin> set places"
  shows "Get pool p = (Inl (EnforceNotMet Place_not_supported), pool)"
proof -
  from assms ctor_pool_keys(2) [OF assms(1)] have "map_of (device_contexts pool) p = None"
    by (simp add: map_of_eq_None_iff)
  then show ?thesis by (simp add: Get_def)
qed

lemma ctor_plain_cpu:
  "DeviceContextPool_ctor plain_build (every_device all_succeed) [PlaceCPU CPUPlace]
     = Inr \<lparr>device_contexts = [(PlaceCPU CPUPlace, CPUCtx \<lparr>cpu_place = CPUPlace\<rparr>)]\<rparr>"
  by (simp add: DeviceContextPool_ctor_def plain_build_def emplace_def CPUDeviceContext_ctor_def)




text \<open>
  Claim C5. \<^verbatim>\<open>Get\<close> on a place the map has no context for raises ("'Place' is not
  supported"): it returns no context, and the pool is as before, so no context was made
  on demand. For a pool the constructor built, these are the places that were not in the
  list. \<^verbatim>\<open>Get\<close> never changes the pool.
\<close>

theorem Get_unregistered_place_raises:
  "(map_of (device_contexts pool) place = None \<longrightarrow>
      Get pool place = (Inl (EnforceNotMet Place_not_supported), pool)) \<and>
   (DeviceContextPool_ctor cfg drv places = Inr pool \<and> place \<notin> set places \<longrightarrow>
      Get pool place = (Inl (EnforceNotMet Place_not_supported), pool)) \<and>
   snd (Get pool place) = pool"
  by (auto simp: ctor_pool_Get_absent) (auto simp: Get_def split: option.splits)

theorem Get_unregistered_place_raises_witness:
  "DeviceContextPool_ctor plain_build (every_device all_succeed) [PlaceCPU CPUPlace]
     = Inr \<lparr>device_contexts = [(PlaceCPU CPUPlace, CPUCtx \<lparr>cpu_place = CPUPlace\<rparr>)]\<rparr> \<and>
   PlaceCUDA (CUDAPlace 0) \<notin> set [PlaceCPU CPUPlace] \<and>
   Get \<lparr>device_contexts = [(PlaceCPU CPUPlace, CPUCtx \<lparr>cpu_place = CPUPlace\<rparr>)]\<rparr> (PlaceCUDA (CUDAPlace 0))
     = (Inl (EnforceNotMet Place_not_supported),
        \<lparr>device_contexts = [(PlaceCPU CPUPlace, CPUCtx \<lparr>cpu_place = CPUPlace\<rparr>)]\<rparr>)"
proof -
  have absent: "PlaceCUDA (CUDAPlace 0) \<notin> set [PlaceCPU CPUPlace]" by simp
  from Get_unregistered_place_raises
    [where cfg = plain_build and drv = "every_device all_succeed" and places = "[PlaceCPU CPUPlace]"
      and pool = "\<lparr>device_contexts = [(PlaceCPU CPUPlace, CPUCtx \<lparr>cpu_place = CPUPlace\<rparr>)]\<rparr>"
      and place = "PlaceCUDA (CUDAPlace 0)"]
    ctor_plain_cpu absent
  show ?thesis by blast
qed

text \<open>
  Claim C6. Constructing the pool over an empty list of places raises (the check
  \<^verbatim>\<open>PADDLE_ENFORCE_GT(places.size(), 0)\<close> fails), and a pool the constructor returns was
  built over a list that is not empty and holds at least one context.
\<close>

theorem empty_place_list_rejected:
  "DeviceContextPool_ctor cfg drv [] = Inl (EnforceNotMet ''places.size() > 0'') \<and>
   (\<forall>pool. DeviceContextPool_ctor cfg drv places = Inr pool \<longrightarrow>
      places \<noteq> [] \<and> device_contexts pool \<noteq> [])"
proof (intro conjI allI impI)
  show "DeviceContextPool_ctor cfg drv [] = Inl (EnforceNotMet ''places.size() > 0'')"
    by (simp add: DeviceContextPool_ctor_def)
next
  fix pool assume pool: "DeviceContextPool_ctor cfg drv places = Inr pool"
  then show ne: "places \<noteq> []" by (rule ctor_pool(1))
  from ctor_pool_keys(2) [OF pool] ne show "device_contexts pool \<noteq> []" by auto
qed

theorem empty_place_list_rejected_witness:
  "DeviceContextPool_ctor plain_build (every_device all_succeed) []
     = Inl (EnforceNotMet ''places.size() > 0'') \<and>
   DeviceContextPool_ctor plain_build (every_device all_succeed) [PlaceCPU CPUPlace]
     = Inr \<lparr>device_contexts = [(PlaceCPU CPUPlace, CPUCtx \<lparr>cpu_place = CPUPlace\<rparr>)]\<rparr> \<and>
   device_contexts \<lparr>device_contexts = [(PlaceCPU CPUPlace, CPUCtx \<lparr>cpu_place = CPUPlace\<rparr>)]\<rparr> \<noteq> []"
  using empty_place_list_rejected
    [where cfg = plain_build and drv = "every_device all_succeed" and places = "[PlaceCPU CPUPlace]"]
    ctor_plain_cpu
  by blast

text \<open>
  Claim C8, at the input where the code departs from it: in a build without CUDA, the
  constructor over the pinned place alone raises, and the message it raises with names
  \<^verbatim>\<open>'CUDAPlace'\<close>, the accelerator place, not the pinned place.
\<close>

theorem pinned_place_without_cuda_message:
  "DeviceContextPool_ctor plain_build (every_device all_succeed) [PlaceCUDAPinned CUDAPinnedPlace]
     = Inl (EnforceNotMet '''CUDAPlace' is not supported, Please re-compile with WITH_GPU option'')"
  by (simp add: DeviceContextPool_ctor_def plain_build_def CUDAPlace_not_supported_def)

section \<open>The workspace\<close>

lemma RunFunc_eq:
  "RunFunc drv n h =
     (if n \<le> workspace_len h then ([cudnn_func (workspace h)], Inr h)
      else if workspace h \<noteq> nullptr \<and> \<not> status drv cudaStreamSynchronize
        then ([cudaStreamSynchronize], Inl (CallFailed cudaStreamSynchronize))
      else (case Alloc_result drv (holder_place h) n of
              Inl e \<Rightarrow>
                ((if workspace h \<noteq> nullptr
                  then [cudaStreamSynchronize, Free (holder_place h) (workspace h)] else [])
                 @ [Alloc (holder_place h) n], Inl e)
            | Inr q \<Rightarrow>
                ((if workspace h \<noteq> nullptr
                  then [cudaStreamSynchronize, Free (holder_place h) (workspace h)] else [])
                 @ [Alloc (holder_place h) n, cudnn_func q],
                 Inr (h\<lparr>workspace := q, workspace_len := n\<rparr>))))"
  by (auto simp: RunFunc_def ReallocateWorkspace_def bind_def ret_def extern_def PADDLE_ENFORCE_def
        memory_Alloc_def memory_Free_def not_le split: sum.splits)

lemma RunFunc_len:
  assumes "RunFunc drv n h = (tr, Inr h')"
  shows "workspace_len h \<le> workspace_len h'" and "n \<le> workspace_len h'"
    and "workspace_len h < n \<Longrightarrow> workspace_len h' = n"
    and "n \<le> workspace_len h \<Longrightarrow> h' = h \<and> tr = [cudnn_func (workspace h)]"
  using assms by (auto simp: RunFunc_eq split: if_splits sum.splits)

lemma RunFunc_fits:
  "n \<le> workspace_len h \<Longrightarrow> RunFunc drv n h = ([cudnn_func (workspace h)], Inr h)"
  by (simp add: RunFunc_eq)

text \<open>
  The capacity field never decreases, whether a call returns or raises, and a call that
  grows the workspace and returns sets it to exactly the size required.
\<close>

lemma holder_after_len:
  "workspace_len h \<le> workspace_len (holder_after drv n h) \<and>
   (workspace_len h < n \<and> succeeds (snd (RunFunc drv n h))
      \<longrightarrow> workspace_len (holder_after drv n h) = n)"
  by (auto simp: holder_after_def succeeds_def RunFunc_eq split: sum.splits)

lemma RunFuncs_len: "workspace_len h \<le> workspace_len (snd (RunFuncs cs h))"
proof (induction cs arbitrary: h)
  case Nil
  show ?case by simp
next
  case (Cons c cs)
  obtain drv n where c: "c = (drv, n)" by (cases c)
  have "workspace_len h \<le> workspace_len (holder_after drv n h)"
    using holder_after_len by blast
  also have "\<dots> \<le> workspace_len (snd (RunFuncs cs (holder_after drv n h)))"
    by (rule Cons.IH)
  finally show ?case by (auto simp: c split: prod.splits)
qed

lemma RunFunc_fresh_100:
  "RunFunc all_succeed 100 fresh_holder
     = ([Alloc (CUDAPlace 0) 100, cudnn_func (Some 4196)], Inr holder_with_workspace)"
  by (simp add: RunFunc_eq fresh_holder_def holder_with_workspace_def all_succeed_def)

lemma RunFunc_out_of_memory_200:
  "RunFunc out_of_memory 200 holder_with_workspace
     = ([cudaStreamSynchronize, Free (CUDAPlace 0) (Some 4196), Alloc (CUDAPlace 0) 200],
        Inl OutOfMemory)"
  by (simp add: RunFunc_eq holder_with_workspace_def out_of_memory_def all_succeed_def)

lemma RunFunc_reuse_50:
  "RunFunc all_succeed 50 holder_with_workspace
     = ([cudnn_func (Some 4196)], Inr holder_with_workspace)"
  by (simp add: RunFunc_eq holder_with_workspace_def)

text \<open>
  Claim C2, at the input where the code departs from it. On a new holder a first call
  requires 100 bytes and gets the buffer at 4196. A second call requires 200 bytes: it
  synchronizes the stream and frees the buffer at 4196, then the allocator is out of
  memory and the call raises, with \<^verbatim>\<open>workspace_\<close> and \<^verbatim>\<open>workspace_len_\<close> not yet assigned.
  A third call requires 50 bytes: the capacity field still says 100, so the call
  reallocates nothing and runs its function on the buffer at 4196, which has been freed.
\<close>

theorem freed_workspace_reused:
  "RunFuncs [(all_succeed, 100), (out_of_memory, 200), (all_succeed, 50)] fresh_holder =
     ([Alloc (CUDAPlace 0) 100, cudnn_func (Some 4196),
       cudaStreamSynchronize, Free (CUDAPlace 0) (Some 4196), Alloc (CUDAPlace 0) 200,
       cudnn_func (Some 4196)],
      holder_with_workspace)"
  by (simp add: holder_after_def RunFunc_fresh_100 RunFunc_out_of_memory_200 RunFunc_reuse_50)

text \<open>
  Claim C3. In every \<^verbatim>\<open>RunFunc\<close> call, whatever the environment: no buffer is freed before
  the stream has been synchronized; the only buffer ever freed is the old workspace, and
  only when there is one, the call grows the workspace and the synchronization
  succeeded. A call that grows the workspace while a buffer exists synchronizes the
  stream, then frees the old buffer, then allocates; if the synchronization fails it
  raises with nothing freed. A call that grows the workspace while no buffer exists
  allocates at once: it neither synchronizes nor frees.
\<close>

theorem workspace_growth_drains_before_free:
  "preceded (\<lambda>c. c = cudaStreamSynchronize) is_Free (fst (RunFunc drv n h)) \<and>
   (\<forall>c\<in>set (fst (RunFunc drv n h)). is_Free c \<longrightarrow>
       c = Free (holder_place h) (workspace h) \<and> workspace h \<noteq> nullptr \<and> workspace_len h < n \<and>
       status drv cudaStreamSynchronize) \<and>
   (workspace_len h < n \<and> workspace h \<noteq> nullptr \<and> status drv cudaStreamSynchronize \<longrightarrow>
       take 3 (fst (RunFunc drv n h)) =
         [cudaStreamSynchronize, Free (holder_place h) (workspace h), Alloc (holder_place h) n]) \<and>
   (workspace_len h < n \<and> workspace h \<noteq> nullptr \<and> \<not> status drv cudaStreamSynchronize \<longrightarrow>
       RunFunc drv n h = ([cudaStreamSynchronize], Inl (CallFailed cudaStreamSynchronize))) \<and>
   (workspace_len h < n \<and> workspace h = nullptr \<longrightarrow>
       take 1 (fst (RunFunc drv n h)) = [Alloc (holder_place h) n] \<and>
       cudaStreamSynchronize \<notin> set (fst (RunFunc drv n h)) \<and>
       \<not> list_ex is_Free (fst (RunFunc drv n h)))"
  by (auto simp: RunFunc_eq split: sum.splits)

theorem workspace_growth_drains_before_free_witness:
  "workspace_len holder_with_workspace < 200 \<and> workspace holder_with_workspace \<noteq> nullptr \<and>
   status all_succeed cudaStreamSynchronize \<and>
   take 3 (fst (RunFunc all_succeed 200 holder_with_workspace))
     = [cudaStreamSynchronize, Free (CUDAPlace 0) (Some 4196), Alloc (CUDAPlace 0) 200] \<and>
   workspace_len fresh_holder < 100 \<and> workspace fresh_holder = nullptr \<and>
   take 1 (fst (RunFunc all_succeed 100 fresh_holder)) = [Alloc (CUDAPlace 0) 100] \<and>
   cudaStreamSynchronize \<notin> set (fst (RunFunc all_succeed 100 fresh_holder))"
proof -
  have pre: "workspace_len holder_with_workspace < 200 \<and> workspace holder_with_workspace \<noteq> nullptr \<and>
      status all_succeed cudaStreamSynchronize"
    by (simp add: holder_with_workspace_def all_succeed_def)
  have pre': "workspace_len fresh_holder < 100 \<and> workspace fresh_holder = nullptr"
    by (simp add: fresh_holder_def)
  have place: "holder_place holder_with_workspace = CUDAPlace 0"
    "workspace holder_with_workspace = Some 4196" "holder_place fresh_holder = CUDAPlace 0"
    by (simp_all add: holder_with_workspace_def fresh_holder_def)
  from workspace_growth_drains_before_free
      [where drv = all_succeed and n = 200 and h = holder_with_workspace]
    workspace_growth_drains_before_free [where drv = all_succeed and n = 100 and h = fresh_holder]
    pre pre' place
  show ?thesis by simp
qed

section \<open>The teardown\<close>

lemma dtor_eq:
  "fst (CUDADeviceContext_dtor drv ctx) =
     SetDeviceId (device (cuda_place ctx)) # cudaStreamSynchronize #
     (if \<not> status drv cudaStreamSynchronize then []
      else cudaGetLastError #
       (if \<not> status drv cudaGetLastError then []
        else WaitStreamCallback # cublasDestroy #
         (if \<not> status drv cublasDestroy then []
          else eigen_stream_reset # eigen_device_reset # cudaStreamDestroy #
           (if \<not> status drv cudaStreamDestroy then []
            else (case cudnn_holder ctx of
                    None \<Rightarrow> []
                  | Some h \<Rightarrow> cudnnDestroy #
                      (if status drv cudnnDestroy \<and> workspace h \<noteq> nullptr
                       then [Free (holder_place h) (workspace h)] else []))))))"
  by (auto simp: CUDADeviceContext_dtor_def CudnnHolder_dtor_def Wait_def bind_def ret_def extern_def
        PADDLE_ENFORCE_def memory_Free_def split: option.splits)

lemma all_succeed_status: "status all_succeed c"
  by (simp add: all_succeed_def)

text \<open>
  What every teardown of an accelerator context does, whatever the calls report: no handle
  or buffer of the context is released before the stream has been synchronized, and one
  is released only if the synchronization and the check of the last error succeeded; the
  calls of the destructor's body are made in the order synchronize, drain the callback
  queue, destroy the cuBLAS handle, release the Eigen adapter, destroy the stream; and the
  holder's cuDNN handle and workspace buffer are released only after the stream has been
  destroyed.
\<close>

lemma teardown_drains_first:
  "preceded (\<lambda>c. c = cudaStreamSynchronize) is_release (fst (CUDADeviceContext_dtor drv ctx)) \<and>
   (list_ex is_release (fst (CUDADeviceContext_dtor drv ctx)) \<longrightarrow>
      status drv cudaStreamSynchronize \<and> status drv cudaGetLastError) \<and>
   prefix (restrict_to teardown_order (fst (CUDADeviceContext_dtor drv ctx))) teardown_order \<and>
   preceded (\<lambda>c. c = cudaStreamDestroy) (\<lambda>c. c = cudnnDestroy \<or> is_Free c)
      (fst (CUDADeviceContext_dtor drv ctx)) \<and>
   (status drv cudaStreamSynchronize \<and> status drv cudaGetLastError \<and> status drv cublasDestroy \<and>
    status drv cudaStreamDestroy \<and> status drv cudnnDestroy \<longrightarrow>
      fst (CUDADeviceContext_dtor drv ctx) =
        [SetDeviceId (device (cuda_place ctx)), cudaStreamSynchronize, cudaGetLastError,
         WaitStreamCallback, cublasDestroy, eigen_stream_reset, eigen_device_reset, cudaStreamDestroy]
        @ (case cudnn_holder ctx of
             None \<Rightarrow> []
           | Some h \<Rightarrow> cudnnDestroy #
               (if workspace h \<noteq> nullptr then [Free (holder_place h) (workspace h)] else [])))"
  by (auto simp: dtor_eq teardown_order_def restrict_to_def split: option.splits)

text \<open>
  Claim C7, at the input where the code departs from it. The context of device 0 has a
  cuDNN holder whose workspace is the buffer at 4196, and every call of the teardown
  succeeds. The stream is synchronized first and the body releases in the order the claim
  gives, but the stream is not destroyed last: the body never resets \<^verbatim>\<open>cudnn_holder_\<close>, so
  the holder's cuDNN handle is destroyed and its workspace freed after
  \<^verbatim>\<open>cudaStreamDestroy\<close>.
\<close>

theorem holder_released_after_stream:
  "fst (CUDADeviceContext_dtor all_succeed context_with_workspace) =
     [SetDeviceId 0, cudaStreamSynchronize, cudaGetLastError, WaitStreamCallback, cublasDestroy,
      eigen_stream_reset, eigen_device_reset, cudaStreamDestroy, cudnnDestroy,
      Free (CUDAPlace 0) (Some 4196)]"
  by (simp add: dtor_eq all_succeed_status context_with_workspace_def context_without_cudnn_def
        holder_with_workspace_def)

end
